theory Spec2Isabelle
  imports Main "HOL-Library.Sublist"
begin

section \<open>Data model of \<open>main.py\<close>\<close>

text \<open>
  The two tables of the SQLite file. A row is a record; a column is prefixed with its
  table name, as in SQL (\<open>posts.likes\<close>), because the Pydantic models below have fields
  of the same names. \<open>image_url\<close> is a nullable column. Integers are Python's, modelled
  as \<open>int\<close>. SQLite stores a signed 64-bit integer: an integer of a request that is bound
  to a statement raises when it is outside that range (\<open>in_int64\<close> below). The ids that
  the tables assign and the like counts grow by one per request; the model lets them
  grow without bound.
\<close>

record UserDB =
  users_id :: int
  users_username :: string
  users_is_admin :: bool
  users_image_url :: "string option"

record PostDB =
  posts_id :: int
  posts_title :: string
  posts_post_text :: string
  posts_likes :: int
  posts_user_id :: int

text \<open>
  The Pydantic models. \<open>UserCreate\<close> and \<open>PostCreate\<close> add nothing to their base class;
  \<open>User\<close> and \<open>Post\<close> extend it. The field \<open>id\<close> is suffixed with its class.
\<close>

record UserBase =
  name :: string
  is_admin :: bool
  image_url :: "string option"

type_synonym UserCreate = UserBase

record User = UserBase +
  id_User :: int

record PostBase =
  title :: string
  post_text :: string
  user_id :: int

type_synonym PostCreate = PostBase

record Post = PostBase +
  id_Post :: int
  likes :: int

text \<open>
  The stored state: both tables, each in storage order (ascending row id, the order in
  which \<open>query.all()\<close> returns the rows).
\<close>

record DB =
  users :: "UserDB list"
  posts :: "PostDB list"

definition empty_db :: DB where
  "empty_db = \<lparr>users = [], posts = []\<rparr>"

text \<open>
  What a handler can raise: the \<open>HTTPException\<close> it raises itself (status code and
  detail); Python's \<open>AttributeError\<close> for a read of an attribute that the object does
  not have (named by the attribute); the \<open>OverflowError\<close> of the SQLite driver for an
  integer parameter outside 64 bits; SQLAlchemy's \<open>OperationalError\<close> for a statement
  that SQLite refuses to run; and its \<open>InvalidRequestError\<close> when \<open>db.refresh\<close> finds no
  row. All but the first reach the client as a server error.
\<close>

datatype error =
  HTTPException int string
  | AttributeError string
  | OverflowError
  | OperationalError
  | InvalidRequestError

definition in_int64 :: "int \<Rightarrow> bool" where
  "in_int64 i \<longleftrightarrow> - 9223372036854775808 \<le> i \<and> i \<le> 9223372036854775807"

datatype pyval = PyStr string | PyInt int

text \<open>
  Reading an attribute of a \<open>PostCreate\<close> object by name. The class declares exactly
  \<open>title\<close>, \<open>post_text\<close> and \<open>user_id\<close>; Pydantic drops any other key of the request
  body, so every other name raises.
\<close>

definition getattr_PostCreate :: "PostCreate \<Rightarrow> string \<Rightarrow> error + pyval" where
  "getattr_PostCreate post a =
     (if a = ''title'' then Inr (PyStr (title post))
      else if a = ''post_text'' then Inr (PyStr (post_text post))
      else if a = ''user_id'' then Inr (PyInt (user_id post))
      else Inl (AttributeError a))"

section \<open>The session: query, insert, update, delete, refresh\<close>

text \<open>The first row of a table with a given id, if there is one.\<close>

definition select_user :: "int \<Rightarrow> DB \<Rightarrow> UserDB option" where
  "select_user i db = find (\<lambda>r. users_id r = i) (users db)"

definition select_post :: "int \<Rightarrow> DB \<Rightarrow> PostDB option" where
  "select_post i db = find (\<lambda>r. posts_id r = i) (posts db)"

text \<open>
  \<open>db.query(T).filter(T.id == i).first()\<close> binds the path parameter \<open>i\<close> to the
  statement: outside 64 bits the driver raises \<open>OverflowError\<close> and no row is read;
  otherwise the answer is the first row with that id, or \<open>None\<close>.
\<close>

definition first_user :: "int \<Rightarrow> DB \<Rightarrow> error + UserDB option" where
  "first_user i db = (if in_int64 i then Inr (select_user i db) else Inl OverflowError)"

definition first_post :: "int \<Rightarrow> DB \<Rightarrow> error + PostDB option" where
  "first_post i db = (if in_int64 i then Inr (select_post i db) else Inl OverflowError)"

text \<open>
  The id that SQLite gives a new row of a table whose key is \<open>INTEGER PRIMARY KEY\<close>: one
  more than the largest id in the table, and 1 in an empty table.
\<close>

definition next_id :: "int list \<Rightarrow> int" where
  "next_id ids = (case ids of [] \<Rightarrow> 1 | i # is \<Rightarrow> fold max is i + 1)"

text \<open>
  \<open>db.add(row); db.commit()\<close> appends the row under its new id. The insert of a post
  binds the \<open>user_id\<close> of the request: outside 64 bits the commit raises
  \<open>OverflowError\<close> and nothing is stored. The insert of a user binds no integer of the
  request. A commit after a change of a loaded row writes the row back under its primary
  key; \<open>db.delete(row); db.commit()\<close> removes the rows of that key.
\<close>

definition insert_user :: "string \<Rightarrow> bool \<Rightarrow> string option \<Rightarrow> DB \<Rightarrow> int \<times> DB" where
  "insert_user n a u db =
     (let i = next_id (map users_id (users db))
      in (i, db\<lparr>users := users db @
                 [\<lparr>users_id = i, users_username = n, users_is_admin = a, users_image_url = u\<rparr>]\<rparr>))"

definition insert_post :: "string \<Rightarrow> string \<Rightarrow> int \<Rightarrow> DB \<Rightarrow> error + int \<times> DB" where
  "insert_post t x u db =
     (if in_int64 u then
        (let i = next_id (map posts_id (posts db))
         in Inr (i, db\<lparr>posts := posts db @
                      [\<lparr>posts_id = i, posts_title = t, posts_post_text = x, posts_likes = 0,
                        posts_user_id = u\<rparr>]\<rparr>))
      else Inl OverflowError)"

definition commit_user :: "UserDB \<Rightarrow> DB \<Rightarrow> DB" where
  "commit_user r db =
     db\<lparr>users := map (\<lambda>x. if users_id x = users_id r then r else x) (users db)\<rparr>"

definition commit_post :: "PostDB \<Rightarrow> DB \<Rightarrow> DB" where
  "commit_post r db =
     db\<lparr>posts := map (\<lambda>x. if posts_id x = posts_id r then r else x) (posts db)\<rparr>"

definition commit_delete_post :: "PostDB \<Rightarrow> DB \<Rightarrow> DB" where
  "commit_delete_post r db = db\<lparr>posts := filter (\<lambda>x. posts_id x \<noteq> posts_id r) (posts db)\<rparr>"

text \<open>The response objects built from a row.\<close>

definition User_of :: "UserDB \<Rightarrow> User" where
  "User_of r = \<lparr>name = users_username r, is_admin = users_is_admin r,
                image_url = users_image_url r, id_User = users_id r\<rparr>"

definition Post_of :: "PostDB \<Rightarrow> Post" where
  "Post_of r = \<lparr>title = posts_title r, post_text = posts_post_text r,
                user_id = posts_user_id r, id_Post = posts_id r, likes = posts_likes r\<rparr>"

text \<open>
  \<open>db.refresh(row)\<close> reads the row again under the id that the row has from the table,
  and raises when there is none.
\<close>

definition refresh_user :: "int \<Rightarrow> DB \<Rightarrow> error + UserDB" where
  "refresh_user i db = (case select_user i db of None \<Rightarrow> Inl InvalidRequestError | Some r \<Rightarrow> Inr r)"

definition refresh_post :: "int \<Rightarrow> DB \<Rightarrow> error + PostDB" where
  "refresh_post i db = (case select_post i db of None \<Rightarrow> Inl InvalidRequestError | Some r \<Rightarrow> Inr r)"

text \<open>
  A \<open>String\<close> column has SQLite's TEXT affinity: a string is stored as it is, an integer
  as its decimal text.
\<close>

function decimal_nat :: "nat \<Rightarrow> string" where
  "decimal_nat n =
     (if n < 10 then [char_of (48 + n)] else decimal_nat (n div 10) @ [char_of (48 + n mod 10)])"
  by pat_completeness auto
termination
  by (relation "measure (\<lambda>n. n)") auto

definition text_affinity :: "pyval \<Rightarrow> string" where
  "text_affinity v =
     (case v of
        PyStr s \<Rightarrow> s
      | PyInt i \<Rightarrow> (if i < 0 then CHR ''-'' # decimal_nat (nat (- i)) else decimal_nat (nat i)))"

section \<open>Substring filters\<close>

text \<open>
  \<open>column.contains(other)\<close> is SQLAlchemy's \<open>column LIKE '%' || other || '%'\<close>, with no
  escape character. SQLite's \<open>LIKE\<close> reads pattern and text as C strings, each up to its
  first NUL character. In the pattern \<open>%\<close> stands for any run of characters and \<open>_\<close> for
  any one character, wherever they come from; the other characters are compared without
  regard to the case of ASCII letters. A character is one \<open>char\<close> here.
\<close>

definition c_string :: "string \<Rightarrow> string" where
  "c_string s = takeWhile (\<lambda>c. c \<noteq> CHR 0x00) s"

definition ascii_lower :: "char \<Rightarrow> char" where
  "ascii_lower c =
     (let n = (of_char c :: nat) in if 65 \<le> n \<and> n \<le> 90 then char_of (n + 32) else c)"

fun patternCompare :: "string \<Rightarrow> string \<Rightarrow> bool" where
  "patternCompare [] s = (s = [])"
| "patternCompare (p # ps) [] = (p = CHR ''%'' \<and> patternCompare ps [])"
| "patternCompare (p # ps) (c # cs) =
     (if p = CHR ''%'' then patternCompare ps (c # cs) \<or> patternCompare (p # ps) cs
      else (p = CHR ''_'' \<or> ascii_lower p = ascii_lower c) \<and> patternCompare ps cs)"

definition like :: "string \<Rightarrow> string \<Rightarrow> bool" where
  "like pattern s = patternCompare (c_string pattern) (c_string s)"

text \<open>
  SQLite refuses a pattern of more than 50000 bytes (\<open>LIKE or GLOB pattern too
  complex\<close>), whatever the text.
\<close>

definition LIKE_PATTERN_LENGTH :: nat where
  "LIKE_PATTERN_LENGTH = 50000"

definition contains :: "string \<Rightarrow> string \<Rightarrow> error + bool" where
  "contains column other =
     (let pattern = CHR ''%'' # other @ [CHR ''%'']
      in if LIKE_PATTERN_LENGTH < length pattern then Inl OperationalError
         else Inr (like pattern column))"

text \<open>
  \<open>query.filter(condition).all()\<close> evaluates the condition row by row, in storage
  order, and keeps the rows where it is true; an error at a row is the error of the
  statement.
\<close>

fun filter_all :: "('r \<Rightarrow> error + bool) \<Rightarrow> 'r list \<Rightarrow> error + 'r list" where
  "filter_all condition [] = Inr []"
| "filter_all condition (r # rs) =
     (case condition r of
        Inl e \<Rightarrow> Inl e
      | Inr b \<Rightarrow>
          (case filter_all condition rs of
             Inl e \<Rightarrow> Inl e
           | Inr kept \<Rightarrow> Inr (if b then r # kept else kept)))"

section \<open>User endpoints\<close>

text \<open>
  A handler takes its arguments and the stored state and returns what it answers, an
  error or the response, with the stored state it leaves. An exception raised before
  \<open>db.commit()\<close> leaves the stored state as it was: \<open>get_db\<close> closes the session, and
  nothing of it has been written.
\<close>

definition create_user :: "UserCreate \<Rightarrow> DB \<Rightarrow> (error + User) \<times> DB" where
  "create_user user db =
     (let (i, db') = insert_user (name user) (is_admin user) (image_url user) db
      in case refresh_user i db' of
           Inl e \<Rightarrow> (Inl e, db')
         | Inr db_user \<Rightarrow> (Inr (User_of db_user), db'))"

text \<open>
  \<open>GET /users/\<close> is defined three times (lines 87, 208 and 216). Each decorator adds a
  route to the application, and the router answers a request with the first route that
  matches, so the handler of line 87 is the one that runs. \<open>if name:\<close> is false for
  \<open>None\<close> and for the empty string.
\<close>

definition get_users :: "string option \<Rightarrow> DB \<Rightarrow> (error + User list) \<times> DB" where
  "get_users name_filter db =
     (let query = Inr (users db);
          query = (case name_filter of
                     None \<Rightarrow> query
                   | Some n \<Rightarrow> if n = [] then query
                              else filter_all (\<lambda>r. contains (users_username r) n) (users db))
      in case query of
           Inl e \<Rightarrow> (Inl e, db)
         | Inr rows \<Rightarrow> (Inr (map User_of rows), db))"

definition get_user :: "int \<Rightarrow> DB \<Rightarrow> (error + User) \<times> DB" where
  "get_user uid db =
     (case first_user uid db of
        Inl e \<Rightarrow> (Inl e, db)
      | Inr None \<Rightarrow> (Inl (HTTPException 404 ''User not found''), db)
      | Inr (Some db_user) \<Rightarrow> (Inr (User_of db_user), db))"

definition update_user :: "int \<Rightarrow> UserCreate \<Rightarrow> DB \<Rightarrow> (error + User) \<times> DB" where
  "update_user uid user db =
     (case first_user uid db of
        Inl e \<Rightarrow> (Inl e, db)
      | Inr None \<Rightarrow> (Inl (HTTPException 404 ''User not found''), db)
      | Inr (Some db_user) \<Rightarrow>
          (let db_user = db_user\<lparr>users_username := name user\<rparr>;
               db_user = db_user\<lparr>users_is_admin := is_admin user\<rparr>;
               db_user = db_user\<lparr>users_image_url := image_url user\<rparr>;
               db' = commit_user db_user db
           in case refresh_user (users_id db_user) db' of
                Inl e \<Rightarrow> (Inl e, db')
              | Inr db_user \<Rightarrow> (Inr (User_of db_user), db')))"

definition patch_user_name :: "int \<Rightarrow> string \<Rightarrow> DB \<Rightarrow> (error + User) \<times> DB" where
  "patch_user_name uid n db =
     (case first_user uid db of
        Inl e \<Rightarrow> (Inl e, db)
      | Inr None \<Rightarrow> (Inl (HTTPException 404 ''User not found''), db)
      | Inr (Some db_user) \<Rightarrow>
          (let db_user = db_user\<lparr>users_username := n\<rparr>;
               db' = commit_user db_user db
           in case refresh_user (users_id db_user) db' of
                Inl e \<Rightarrow> (Inl e, db')
              | Inr db_user \<Rightarrow> (Inr (User_of db_user), db')))"

section \<open>Post endpoints\<close>

text \<open>
  \<open>POST /posts/\<close> is defined twice. \<open>create_post\<close> is the handler of line 126, the first
  route, which the router dispatches to: \<open>PostDB(**post.dict())\<close> sets the three fields
  of the request, and the column default sets \<open>likes\<close> to 0 at the insert.
  \<open>create_post_134\<close> is the handler of line 134, which reads \<open>post.text\<close>.
\<close>

definition create_post :: "PostCreate \<Rightarrow> DB \<Rightarrow> (error + Post) \<times> DB" where
  "create_post post db =
     (case insert_post (title post) (post_text post) (user_id post) db of
        Inl e \<Rightarrow> (Inl e, db)
      | Inr (i, db') \<Rightarrow>
          (case refresh_post i db' of
             Inl e \<Rightarrow> (Inl e, db')
           | Inr db_post \<Rightarrow> (Inr (Post_of db_post), db')))"

definition create_post_134 :: "PostCreate \<Rightarrow> DB \<Rightarrow> (error + Post) \<times> DB" where
  "create_post_134 post db =
     (case getattr_PostCreate post ''text'' of
        Inl e \<Rightarrow> (Inl e, db)
      | Inr v \<Rightarrow>
          (case insert_post (title post) (text_affinity v) (user_id post) db of
             Inl e \<Rightarrow> (Inl e, db)
           | Inr (i, db') \<Rightarrow>
               (case refresh_post i db' of
                  Inl e \<Rightarrow> (Inl e, db')
                | Inr db_post \<Rightarrow> (Inr (Post_of db_post), db'))))"

definition get_posts :: "string option \<Rightarrow> DB \<Rightarrow> (error + Post list) \<times> DB" where
  "get_posts title_filter db =
     (let query = Inr (posts db);
          query = (case title_filter of
                     None \<Rightarrow> query
                   | Some t \<Rightarrow> if t = [] then query
                              else filter_all (\<lambda>r. contains (posts_title r) t) (posts db))
      in case query of
           Inl e \<Rightarrow> (Inl e, db)
         | Inr rows \<Rightarrow> (Inr (map Post_of rows), db))"

definition get_post :: "int \<Rightarrow> DB \<Rightarrow> (error + Post) \<times> DB" where
  "get_post pid db =
     (case first_post pid db of
        Inl e \<Rightarrow> (Inl e, db)
      | Inr None \<Rightarrow> (Inl (HTTPException 404 ''Post not found''), db)
      | Inr (Some db_post) \<Rightarrow> (Inr (Post_of db_post), db))"

text \<open>
  \<open>update_post\<close> sets \<open>db_post.title\<close> in the session, then reads \<open>post.text\<close>; an
  exception there ends the request before the commit. The commit binds the \<open>user_id\<close> of
  the request.
\<close>

definition update_post :: "int \<Rightarrow> PostCreate \<Rightarrow> DB \<Rightarrow> (error + Post) \<times> DB" where
  "update_post pid post db =
     (case first_post pid db of
        Inl e \<Rightarrow> (Inl e, db)
      | Inr None \<Rightarrow> (Inl (HTTPException 404 ''Post not found''), db)
      | Inr (Some db_post) \<Rightarrow>
          (let db_post = db_post\<lparr>posts_title := title post\<rparr>
           in case getattr_PostCreate post ''text'' of
                Inl e \<Rightarrow> (Inl e, db)
              | Inr v \<Rightarrow>
                  (let db_post = db_post\<lparr>posts_post_text := text_affinity v\<rparr>;
                       db_post = db_post\<lparr>posts_user_id := user_id post\<rparr>
                   in if in_int64 (user_id post) then
                        (let db' = commit_post db_post db
                         in case refresh_post (posts_id db_post) db' of
                              Inl e \<Rightarrow> (Inl e, db')
                            | Inr db_post \<Rightarrow> (Inr (Post_of db_post), db'))
                      else (Inl OverflowError, db))))"

definition patch_post_text :: "int \<Rightarrow> string \<Rightarrow> DB \<Rightarrow> (error + Post) \<times> DB" where
  "patch_post_text pid text db =
     (case first_post pid db of
        Inl e \<Rightarrow> (Inl e, db)
      | Inr None \<Rightarrow> (Inl (HTTPException 404 ''Post not found''), db)
      | Inr (Some db_post) \<Rightarrow>
          (let db_post = db_post\<lparr>posts_post_text := text\<rparr>;
               db' = commit_post db_post db
           in case refresh_post (posts_id db_post) db' of
                Inl e \<Rightarrow> (Inl e, db')
              | Inr db_post \<Rightarrow> (Inr (Post_of db_post), db')))"

definition increment_post_likes :: "int \<Rightarrow> DB \<Rightarrow> (error + Post) \<times> DB" where
  "increment_post_likes pid db =
     (case first_post pid db of
        Inl e \<Rightarrow> (Inl e, db)
      | Inr None \<Rightarrow> (Inl (HTTPException 404 ''Post not found''), db)
      | Inr (Some db_post) \<Rightarrow>
          (let db_post = db_post\<lparr>posts_likes := posts_likes db_post + 1\<rparr>;
               db' = commit_post db_post db
           in case refresh_post (posts_id db_post) db' of
                Inl e \<Rightarrow> (Inl e, db')
              | Inr db_post \<Rightarrow> (Inr (Post_of db_post), db')))"

definition decrement_post_likes :: "int \<Rightarrow> DB \<Rightarrow> (error + Post) \<times> DB" where
  "decrement_post_likes pid db =
     (case first_post pid db of
        Inl e \<Rightarrow> (Inl e, db)
      | Inr None \<Rightarrow> (Inl (HTTPException 404 ''Post not found''), db)
      | Inr (Some db_post) \<Rightarrow>
          (let db_post = db_post\<lparr>posts_likes := max 0 (posts_likes db_post - 1)\<rparr>;
               db' = commit_post db_post db
           in case refresh_post (posts_id db_post) db' of
                Inl e \<Rightarrow> (Inl e, db')
              | Inr db_post \<Rightarrow> (Inr (Post_of db_post), db')))"

text \<open>
  \<open>delete_post\<close> returns the object it loaded: the commit detaches a deleted object
  without expiring its attributes, so the response is the row as it was read.
\<close>

definition delete_post :: "int \<Rightarrow> DB \<Rightarrow> (error + Post) \<times> DB" where
  "delete_post pid db =
     (case first_post pid db of
        Inl e \<Rightarrow> (Inl e, db)
      | Inr None \<Rightarrow> (Inl (HTTPException 404 ''Post not found''), db)
      | Inr (Some db_post) \<Rightarrow> (Inr (Post_of db_post), commit_delete_post db_post db))"

section \<open>The application: routes and reachable states\<close>

text \<open>
  A request names its route and carries the route's arguments (path parameter, query
  parameter, body). \<open>app\<close> dispatches a request to the handler registered first for its
  method and path.
\<close>

datatype request =
  POST_users UserCreate
  | GET_users "string option"
  | GET_user int
  | PUT_user int UserCreate
  | PATCH_user_name int string
  | POST_posts PostCreate
  | GET_posts "string option"
  | GET_post int
  | PUT_post int PostCreate
  | PATCH_post_text int string
  | PATCH_post_likes_increment int
  | PATCH_post_likes_decrement int
  | DELETE_post int

datatype response =
  User_body User
  | Users_body "User list"
  | Post_body Post
  | Posts_body "Post list"

definition respond :: "('a \<Rightarrow> response) \<Rightarrow> (error + 'a) \<times> DB \<Rightarrow> (error + response) \<times> DB" where
  "respond f r = (case fst r of Inl e \<Rightarrow> (Inl e, snd r) | Inr x \<Rightarrow> (Inr (f x), snd r))"

fun app :: "request \<Rightarrow> DB \<Rightarrow> (error + response) \<times> DB" where
  "app (POST_users user) db = respond User_body (create_user user db)"
| "app (GET_users n) db = respond Users_body (get_users n db)"
| "app (GET_user uid) db = respond User_body (get_user uid db)"
| "app (PUT_user uid user) db = respond User_body (update_user uid user db)"
| "app (PATCH_user_name uid n) db = respond User_body (patch_user_name uid n db)"
| "app (POST_posts post) db = respond Post_body (create_post post db)"
| "app (GET_posts t) db = respond Posts_body (get_posts t db)"
| "app (GET_post pid) db = respond Post_body (get_post pid db)"
| "app (PUT_post pid post) db = respond Post_body (update_post pid post db)"
| "app (PATCH_post_text pid text) db = respond Post_body (patch_post_text pid text db)"
| "app (PATCH_post_likes_increment pid) db = respond Post_body (increment_post_likes pid db)"
| "app (PATCH_post_likes_decrement pid) db = respond Post_body (decrement_post_likes pid db)"
| "app (DELETE_post pid) db = respond Post_body (delete_post pid db)"

text \<open>
  The stored states the application can be in: the empty tables that
  \<open>Base.metadata.create_all\<close> creates, and what any request leaves of a reachable state.
\<close>

inductive reachable :: "DB \<Rightarrow> bool" where
  start: "reachable empty_db"
| request: "reachable db \<Longrightarrow> reachable (snd (app req db))"

text \<open>The primary key of each table is unique.\<close>

definition unique_ids :: "DB \<Rightarrow> bool" where
  "unique_ids db \<longleftrightarrow> distinct (map users_id (users db)) \<and> distinct (map posts_id (posts db))"

text \<open>The like counts of the stored posts are not negative.\<close>

definition likes_nonneg :: "DB \<Rightarrow> bool" where
  "likes_nonneg db \<longleftrightarrow> (\<forall>p\<in>set (posts db). 0 \<le> posts_likes p)"

text \<open>The requests that look a row up by its id, with the table and the id.\<close>

datatype table = Users | Posts

fun lookup_by_id :: "request \<Rightarrow> (table \<times> int) option" where
  "lookup_by_id (GET_user uid) = Some (Users, uid)"
| "lookup_by_id (PUT_user uid user) = Some (Users, uid)"
| "lookup_by_id (PATCH_user_name uid n) = Some (Users, uid)"
| "lookup_by_id (GET_post pid) = Some (Posts, pid)"
| "lookup_by_id (PUT_post pid post) = Some (Posts, pid)"
| "lookup_by_id (PATCH_post_text pid text) = Some (Posts, pid)"
| "lookup_by_id (PATCH_post_likes_increment pid) = Some (Posts, pid)"
| "lookup_by_id (PATCH_post_likes_decrement pid) = Some (Posts, pid)"
| "lookup_by_id (DELETE_post pid) = Some (Posts, pid)"
| "lookup_by_id _ = None"

fun has_row :: "table \<times> int \<Rightarrow> DB \<Rightarrow> bool" where
  "has_row (Users, i) db = (i \<in> users_id ` set (users db))"
| "has_row (Posts, i) db = (i \<in> posts_id ` set (posts db))"

text \<open>The answer is the 404 that the handlers raise as \<open>HTTPException\<close>.\<close>

fun not_found :: "error + 'a \<Rightarrow> bool" where
  "not_found (Inl (HTTPException code detail)) = (code = 404)"
| "not_found _ = False"

fun changes_likes :: "request \<Rightarrow> bool" where
  "changes_likes (PATCH_post_likes_increment pid) = True"
| "changes_likes (PATCH_post_likes_decrement pid) = True"
| "changes_likes _ = False"

text \<open>Running a handler \<open>n\<close> times in a row, each time on the state the last run left.\<close>

definition repeated :: "nat \<Rightarrow> (DB \<Rightarrow> 'a \<times> DB) \<Rightarrow> DB \<Rightarrow> DB" where
  "repeated n handler = (\<lambda>db. snd (handler db)) ^^ n"

section \<open>Example data\<close>

definition ex_user_create :: UserCreate where
  "ex_user_create = \<lparr>name = ''ada'', is_admin = True, image_url = Some ''a.png''\<rparr>"

definition ex_post_create :: PostCreate where
  "ex_post_create = \<lparr>title = ''hello'', post_text = ''first'', user_id = 1\<rparr>"

definition ex_post_update :: PostCreate where
  "ex_post_update = \<lparr>title = ''bye'', post_text = ''second'', user_id = 2\<rparr>"

definition ex_user :: UserDB where
  "ex_user = \<lparr>users_id = 1, users_username = ''ada'', users_is_admin = True,
               users_image_url = Some ''a.png''\<rparr>"

definition ex_post :: PostDB where
  "ex_post = \<lparr>posts_id = 1, posts_title = ''hello'', posts_post_text = ''first'',
               posts_likes = 0, posts_user_id = 1\<rparr>"

definition ex_db :: DB where
  "ex_db = \<lparr>users = [ex_user], posts = [ex_post]\<rparr>"

text \<open>The least integer above the 64-bit range.\<close>

definition ex_big :: int where
  "ex_big = 9223372036854775808"

section \<open>Lookups after a commit\<close>

lemma find_key: "find (\<lambda>x. k x = i) xs = Some p \<Longrightarrow> k p = i \<and> p \<in> set xs"
  by (induction xs) (auto split: if_splits)

lemma find_None_image: "find (\<lambda>x. k x = i) xs = None \<longleftrightarrow> i \<notin> k ` set xs"
  by (induction xs) auto

lemma find_replace:
  "find (\<lambda>x. k x = i) xs = Some p \<Longrightarrow> k r = i \<Longrightarrow>
   find (\<lambda>x. k x = i) (map (\<lambda>x. if k x = i then r else x) xs) = Some r"
  by (induction xs) (auto split: if_splits)

lemma find_remove: "find (\<lambda>x. k x = i) (filter (\<lambda>x. k x \<noteq> i) xs) = None"
  by (induction xs) auto

lemma find_snoc:
  "find P (xs @ [y]) = (case find P xs of None \<Rightarrow> (if P y then Some y else None) | Some x \<Rightarrow> Some x)"
  by (induction xs) auto

lemma select_post_key: "select_post pid db = Some p \<Longrightarrow> posts_id p = pid"
  unfolding select_post_def by (drule find_key) simp

lemma select_user_key: "select_user uid db = Some p \<Longrightarrow> users_id p = uid"
  unfolding select_user_def by (drule find_key) simp

lemma select_post_None: "select_post pid db = None \<longleftrightarrow> \<not> has_row (Posts, pid) db"
  by (simp add: select_post_def find_None_image)

lemma select_user_None: "select_user uid db = None \<longleftrightarrow> \<not> has_row (Users, uid) db"
  by (simp add: select_user_def find_None_image)

lemma select_post_commit:
  "select_post pid db = Some p \<Longrightarrow> posts_id r = pid \<Longrightarrow>
   select_post pid (commit_post r db) = Some r"
  unfolding select_post_def commit_post_def by (simp add: find_replace)

lemma select_user_commit:
  "select_user uid db = Some p \<Longrightarrow> users_id r = uid \<Longrightarrow>
   select_user uid (commit_user r db) = Some r"
  unfolding select_user_def commit_user_def by (simp add: find_replace)

lemma select_post_deleted: "select_post (posts_id r) (commit_delete_post r db) = None"
  unfolding select_post_def commit_delete_post_def by (simp add: find_remove)

text \<open>The three answers of a query by id.\<close>

lemma first_post_Some:
  "first_post pid db = Inr (Some p) \<longleftrightarrow> in_int64 pid \<and> select_post pid db = Some p"
  by (simp add: first_post_def)

lemma first_user_Some:
  "first_user uid db = Inr (Some u) \<longleftrightarrow> in_int64 uid \<and> select_user uid db = Some u"
  by (simp add: first_user_def)

lemma first_post_None: "first_post pid db = Inr None \<longleftrightarrow> in_int64 pid \<and> \<not> has_row (Posts, pid) db"
  by (simp add: first_post_def select_post_None)

lemma first_user_None: "first_user uid db = Inr None \<longleftrightarrow> in_int64 uid \<and> \<not> has_row (Users, uid) db"
  by (simp add: first_user_def select_user_None)

lemma first_post_overflow: "first_post pid db = Inl e \<longleftrightarrow> \<not> in_int64 pid \<and> e = OverflowError"
  by (auto simp: first_post_def)

lemma first_user_overflow: "first_user uid db = Inl e \<longleftrightarrow> \<not> in_int64 uid \<and> e = OverflowError"
  by (auto simp: first_user_def)

lemma first_post_key: "first_post pid db = Inr (Some p) \<Longrightarrow> posts_id p = pid"
  by (auto simp: first_post_Some dest: select_post_key)

lemma first_user_key: "first_user uid db = Inr (Some u) \<Longrightarrow> users_id u = uid"
  by (auto simp: first_user_Some dest: select_user_key)

lemma first_post_commit:
  "first_post pid db = Inr (Some p) \<Longrightarrow> posts_id r = pid \<Longrightarrow>
   first_post pid (commit_post r db) = Inr (Some r)"
  by (simp add: first_post_Some select_post_commit)

lemma refresh_post_commit:
  "first_post pid db = Inr (Some p) \<Longrightarrow> posts_id r = pid \<Longrightarrow>
   refresh_post pid (commit_post r db) = Inr r"
  by (simp add: first_post_Some refresh_post_def select_post_commit)

lemma refresh_user_commit:
  "first_user uid db = Inr (Some u) \<Longrightarrow> users_id r = uid \<Longrightarrow>
   refresh_user uid (commit_user r db) = Inr r"
  by (simp add: first_user_Some refresh_user_def select_user_commit)

section \<open>What each handler does to a row that exists\<close>

lemma decrement_found:
  assumes "first_post pid db = Inr (Some p)"
  shows "decrement_post_likes pid db =
           (Inr (Post_of (p\<lparr>posts_likes := max 0 (posts_likes p - 1)\<rparr>)),
            commit_post (p\<lparr>posts_likes := max 0 (posts_likes p - 1)\<rparr>) db)"
  using assms first_post_key[OF assms]
  by (simp add: decrement_post_likes_def refresh_post_commit Let_def)

lemma increment_found:
  assumes "first_post pid db = Inr (Some p)"
  shows "increment_post_likes pid db =
           (Inr (Post_of (p\<lparr>posts_likes := posts_likes p + 1\<rparr>)),
            commit_post (p\<lparr>posts_likes := posts_likes p + 1\<rparr>) db)"
  using assms first_post_key[OF assms]
  by (simp add: increment_post_likes_def refresh_post_commit Let_def)

lemma patch_post_text_found:
  assumes "first_post pid db = Inr (Some p)"
  shows "patch_post_text pid text db =
           (Inr (Post_of (p\<lparr>posts_post_text := text\<rparr>)),
            commit_post (p\<lparr>posts_post_text := text\<rparr>) db)"
  using assms first_post_key[OF assms]
  by (simp add: patch_post_text_def refresh_post_commit Let_def)

lemma patch_user_name_found:
  assumes "first_user uid db = Inr (Some p)"
  shows "patch_user_name uid n db =
           (Inr (User_of (p\<lparr>users_username := n\<rparr>)),
            commit_user (p\<lparr>users_username := n\<rparr>) db)"
  using assms first_user_key[OF assms]
  by (simp add: patch_user_name_def refresh_user_commit Let_def)

lemma update_user_found:
  assumes "first_user uid db = Inr (Some p)"
  shows "update_user uid user db =
           (Inr (User_of (p\<lparr>users_username := name user, users_is_admin := is_admin user,
                             users_image_url := image_url user\<rparr>)),
            commit_user (p\<lparr>users_username := name user, users_is_admin := is_admin user,
                           users_image_url := image_url user\<rparr>) db)"
  using assms first_user_key[OF assms]
  by (simp add: update_user_def refresh_user_commit Let_def)

lemma getattr_text: "getattr_PostCreate post ''text'' = Inl (AttributeError ''text'')"
  by (simp add: getattr_PostCreate_def)

lemma update_post_found:
  "first_post pid db = Inr (Some p) \<Longrightarrow>
   update_post pid post db = (Inl (AttributeError ''text''), db)"
  by (simp add: update_post_def getattr_text)

lemma update_post_state: "snd (update_post pid post db) = db"
  by (simp add: update_post_def getattr_text split: option.split sum.split)

lemma create_post_134_fails: "create_post_134 post db = (Inl (AttributeError ''text''), db)"
  by (simp add: create_post_134_def getattr_text)

section \<open>Likes\<close>

text \<open>
  C3: for every existing post, the decrement-likes operation answers with the post at
  like count \<open>max(0, likes - 1)\<close> and stores it so; a post at like count 0 stays as
  it is, at 0.
\<close>

theorem decrement_post_likes_max:
  assumes "first_post pid db = Inr (Some p)"
  shows "fst (decrement_post_likes pid db) =
           Inr (Post_of (p\<lparr>posts_likes := max 0 (posts_likes p - 1)\<rparr>))
       \<and> first_post pid (snd (decrement_post_likes pid db)) =
           Inr (Some (p\<lparr>posts_likes := max 0 (posts_likes p - 1)\<rparr>))
       \<and> (posts_likes p = 0 \<longrightarrow>
            first_post pid (snd (decrement_post_likes pid db)) = Inr (Some p))"
  using assms first_post_key[OF assms]
  by (simp add: decrement_found first_post_commit)

lemma first_post_ex_db: "first_post 1 ex_db = Inr (Some ex_post)"
  by (simp add: first_post_def select_post_def in_int64_def ex_db_def ex_post_def)

theorem decrement_post_likes_max_witness:
  "first_post 1 ex_db = Inr (Some ex_post)
   \<and> posts_likes ex_post = 0
   \<and> fst (decrement_post_likes 1 ex_db) = Inr (Post_of ex_post)
   \<and> first_post 1 (snd (decrement_post_likes 1 ex_db)) = Inr (Some ex_post)"
  using decrement_post_likes_max[OF first_post_ex_db] first_post_ex_db
  by (simp add: ex_post_def)

lemma increment_times:
  "first_post pid db = Inr (Some p) \<Longrightarrow>
   first_post pid (repeated n (increment_post_likes pid) db) =
     Inr (Some (p\<lparr>posts_likes := posts_likes p + int n\<rparr>))"
proof (induction n)
  case 0
  then show ?case by (simp add: repeated_def)
next
  case (Suc n)
  from Suc.IH[OF Suc.prems] first_post_key[OF Suc.prems]
  show ?case
    by (simp add: repeated_def increment_found first_post_commit add.assoc)
qed

lemma decrement_times:
  "first_post pid db = Inr (Some p) \<Longrightarrow> int m \<le> posts_likes p \<Longrightarrow>
   first_post pid (repeated m (decrement_post_likes pid) db) =
     Inr (Some (p\<lparr>posts_likes := posts_likes p - int m\<rparr>))"
proof (induction m)
  case 0
  then show ?case by (simp add: repeated_def)
next
  case (Suc m)
  then have "first_post pid (repeated m (decrement_post_likes pid) db) =
     Inr (Some (p\<lparr>posts_likes := posts_likes p - int m\<rparr>))" by simp
  with Suc.prems first_post_key[OF Suc.prems(1)]
  show ?case
    by (simp add: repeated_def decrement_found first_post_commit max_def)
qed

text \<open>
  C4: for a post whose like count is 0, \<open>N\<close> increments followed by \<open>M \<le> N\<close> decrements
  leave the stored post at like count \<open>N - M\<close> with its other columns as they were, and
  get-by-id then answers with that post: its id, title, text and owner, and the like
  count \<open>N - M\<close>.
\<close>

theorem increment_then_decrement:
  assumes "first_post pid db = Inr (Some p)" and "posts_likes p = 0" and "M \<le> N"
  shows "first_post pid (repeated M (decrement_post_likes pid)
                           (repeated N (increment_post_likes pid) db)) =
           Inr (Some \<lparr>posts_id = pid, posts_title = posts_title p,
                       posts_post_text = posts_post_text p, posts_likes = int N - int M,
                       posts_user_id = posts_user_id p\<rparr>)
       \<and> fst (get_post pid (repeated M (decrement_post_likes pid)
                              (repeated N (increment_post_likes pid) db))) =
           Inr \<lparr>title = posts_title p, post_text = posts_post_text p,
                 user_id = posts_user_id p, id_Post = pid, likes = int N - int M\<rparr>"
proof -
  have "first_post pid (repeated N (increment_post_likes pid) db) =
          Inr (Some (p\<lparr>posts_likes := int N\<rparr>))"
    using increment_times[OF assms(1), of N] assms(2) by simp
  from decrement_times[OF this, of M] assms(3)
  have "first_post pid (repeated M (decrement_post_likes pid)
                          (repeated N (increment_post_likes pid) db)) =
          Inr (Some (p\<lparr>posts_likes := int N - int M\<rparr>))"
    by simp
  moreover have "p\<lparr>posts_likes := int N - int M\<rparr> =
      \<lparr>posts_id = pid, posts_title = posts_title p, posts_post_text = posts_post_text p,
        posts_likes = int N - int M, posts_user_id = posts_user_id p\<rparr>"
    using first_post_key[OF assms(1)] by (cases p) simp
  ultimately show ?thesis by (simp add: get_post_def Post_of_def)
qed

theorem increment_then_decrement_witness:
  "first_post 1 ex_db = Inr (Some ex_post) \<and> posts_likes ex_post = 0 \<and> (2::nat) \<le> 3
   \<and> first_post 1 (repeated 2 (decrement_post_likes 1) (repeated 3 (increment_post_likes 1) ex_db)) =
       Inr (Some \<lparr>posts_id = 1, posts_title = ''hello'', posts_post_text = ''first'',
                   posts_likes = 1, posts_user_id = 1\<rparr>)
   \<and> fst (get_post 1 (repeated 2 (decrement_post_likes 1) (repeated 3 (increment_post_likes 1) ex_db))) =
       Inr \<lparr>title = ''hello'', post_text = ''first'', user_id = 1, id_Post = 1, likes = 1\<rparr>"
  using increment_then_decrement[OF first_post_ex_db, of 2 3] first_post_ex_db
  by (simp add: ex_post_def)

section \<open>Fresh ids\<close>

lemma fold_max_ge: "a \<le> fold max xs a \<and> (\<forall>x\<in>set xs. x \<le> fold max xs (a::int))"
proof (induction xs arbitrary: a)
  case Nil
  show ?case by simp
next
  case (Cons y ys)
  from Cons.IH[of "max y a"] show ?case by auto
qed

lemma next_id_greater: "i \<in> set ids \<Longrightarrow> i < next_id ids"
  using fold_max_ge[of "hd ids" "tl ids"]
  by (cases ids) (auto simp: next_id_def)

lemma next_id_fresh: "find (\<lambda>x. k x = next_id (map k xs)) xs = None"
  using next_id_greater[of _ "map k xs"] by (fastforce simp: find_None_iff)

lemma select_user_insert:
  "insert_user n a u db = (i, db') \<Longrightarrow>
   select_user i db' = Some \<lparr>users_id = i, users_username = n, users_is_admin = a, users_image_url = u\<rparr>"
  by (auto simp: insert_user_def Let_def select_user_def find_snoc next_id_fresh)

lemma select_post_insert:
  "insert_post t x u db = Inr (i, db') \<Longrightarrow>
   select_post i db' = Some \<lparr>posts_id = i, posts_title = t, posts_post_text = x, posts_likes = 0,
                               posts_user_id = u\<rparr>"
  by (auto simp: insert_post_def Let_def select_post_def find_snoc next_id_fresh
      split: if_splits)

lemma create_user_inserts:
  "insert_user (name user) (is_admin user) (image_url user) db = (i, db') \<Longrightarrow>
   create_user user db =
     (Inr \<lparr>name = name user, is_admin = is_admin user, image_url = image_url user, id_User = i\<rparr>, db')"
  by (frule select_user_insert) (simp add: create_user_def refresh_user_def User_of_def)

lemma create_post_inserts:
  "insert_post (title post) (post_text post) (user_id post) db = Inr (i, db') \<Longrightarrow>
   create_post post db =
     (Inr \<lparr>title = title post, post_text = post_text post, user_id = user_id post, id_Post = i,
           likes = 0\<rparr>, db')"
  by (frule select_post_insert) (simp add: create_post_def refresh_post_def Post_of_def)

lemma create_post_overflow:
  "\<not> in_int64 (user_id post) \<Longrightarrow> create_post post db = (Inl OverflowError, db)"
  by (simp add: create_post_def insert_post_def)

lemma insert_post_in_range:
  "in_int64 u \<Longrightarrow> \<exists>i db'. insert_post t x u db = Inr (i, db')"
  by (simp add: insert_post_def Let_def)

section \<open>Create, then get\<close>



section \<open>Answers and states of the lookups by id\<close>

lemma get_user_absent:
  "first_user uid db = Inr None \<Longrightarrow>
   get_user uid db = (Inl (HTTPException 404 ''User not found''), db)"
  by (simp add: get_user_def)

lemma get_user_found:
  "first_user uid db = Inr (Some p) \<Longrightarrow> get_user uid db = (Inr (User_of p), db)"
  by (simp add: get_user_def)

lemma update_user_absent:
  "first_user uid db = Inr None \<Longrightarrow>
   update_user uid user db = (Inl (HTTPException 404 ''User not found''), db)"
  by (simp add: update_user_def)

lemma patch_user_name_absent:
  "first_user uid db = Inr None \<Longrightarrow>
   patch_user_name uid n db = (Inl (HTTPException 404 ''User not found''), db)"
  by (simp add: patch_user_name_def)

lemma get_post_absent:
  "first_post pid db = Inr None \<Longrightarrow>
   get_post pid db = (Inl (HTTPException 404 ''Post not found''), db)"
  by (simp add: get_post_def)

lemma get_post_found:
  "first_post pid db = Inr (Some p) \<Longrightarrow> get_post pid db = (Inr (Post_of p), db)"
  by (simp add: get_post_def)

lemma update_post_absent:
  "first_post pid db = Inr None \<Longrightarrow>
   update_post pid post db = (Inl (HTTPException 404 ''Post not found''), db)"
  by (simp add: update_post_def)

lemma patch_post_text_absent:
  "first_post pid db = Inr None \<Longrightarrow>
   patch_post_text pid text db = (Inl (HTTPException 404 ''Post not found''), db)"
  by (simp add: patch_post_text_def)

lemma increment_absent:
  "first_post pid db = Inr None \<Longrightarrow>
   increment_post_likes pid db = (Inl (HTTPException 404 ''Post not found''), db)"
  by (simp add: increment_post_likes_def)

lemma decrement_absent:
  "first_post pid db = Inr None \<Longrightarrow>
   decrement_post_likes pid db = (Inl (HTTPException 404 ''Post not found''), db)"
  by (simp add: decrement_post_likes_def)

lemma delete_post_absent:
  "first_post pid db = Inr None \<Longrightarrow>
   delete_post pid db = (Inl (HTTPException 404 ''Post not found''), db)"
  by (simp add: delete_post_def)

lemma delete_post_found:
  "first_post pid db = Inr (Some p) \<Longrightarrow>
   delete_post pid db = (Inr (Post_of p), commit_delete_post p db)"
  by (simp add: delete_post_def)

lemmas absent_simps =
  get_user_absent update_user_absent patch_user_name_absent get_post_absent update_post_absent
  patch_post_text_absent increment_absent decrement_absent delete_post_absent

lemmas found_simps =
  get_user_found update_user_found patch_user_name_found get_post_found update_post_found
  patch_post_text_found increment_found decrement_found delete_post_found

text \<open>An id outside 64 bits: the query raises, whatever the handler.\<close>

lemma users_overflow:
  assumes "\<not> in_int64 uid"
  shows "get_user uid db = (Inl OverflowError, db)"
    and "update_user uid user db = (Inl OverflowError, db)"
    and "patch_user_name uid n db = (Inl OverflowError, db)"
  using assms
  by (simp_all add: get_user_def update_user_def patch_user_name_def first_user_def)

lemma posts_overflow:
  assumes "\<not> in_int64 pid"
  shows "get_post pid db = (Inl OverflowError, db)"
    and "update_post pid post db = (Inl OverflowError, db)"
    and "patch_post_text pid t db = (Inl OverflowError, db)"
    and "increment_post_likes pid db = (Inl OverflowError, db)"
    and "decrement_post_likes pid db = (Inl OverflowError, db)"
    and "delete_post pid db = (Inl OverflowError, db)"
  using assms
  by (simp_all add: get_post_def update_post_def patch_post_text_def increment_post_likes_def
      decrement_post_likes_def delete_post_def first_post_def)

lemma not_found_isl: "not_found x \<Longrightarrow> isl x"
  by (cases x) simp_all

lemma lookup_overflow:
  assumes "lookup_by_id req = Some (t, i)" and "\<not> in_int64 i"
  shows "app req db = (Inl OverflowError, db)"
  using assms by (cases req) (auto simp: respond_def users_overflow posts_overflow)

lemma lookup_absent:
  assumes "lookup_by_id req = Some (t, i)" and "in_int64 i" and "\<not> has_row (t, i) db"
  shows "not_found (fst (app req db)) \<and> snd (app req db) = db"
proof -
  have u: "first_user j db = Inr None" if "in_int64 j" "\<not> has_row (Users, j) db" for j
    using that by (simp add: first_user_None)
  have p: "first_post j db = Inr None" if "in_int64 j" "\<not> has_row (Posts, j) db" for j
    using that by (simp add: first_post_None)
  show ?thesis
    using assms
    by (cases req) (auto simp: respond_def absent_simps u p simp del: has_row.simps)
qed

lemma lookup_found:
  assumes "lookup_by_id req = Some (t, i)" and "in_int64 i" and "has_row (t, i) db"
  shows "case req of
           PUT_post pid post \<Rightarrow> app req db = (Inl (AttributeError ''text''), db)
         | _ \<Rightarrow> \<not> isl (fst (app req db))"
proof -
  have u: "\<exists>p. first_user j db = Inr (Some p)" if "in_int64 j" "has_row (Users, j) db" for j
    using that select_user_None[of j db]
    by (cases "select_user j db") (simp_all add: first_user_def)
  have p: "\<exists>p. first_post j db = Inr (Some p)" if "in_int64 j" "has_row (Posts, j) db" for j
    using that select_post_None[of j db]
    by (cases "select_post j db") (simp_all add: first_post_def)
  show ?thesis
  proof (cases t)
    case Users
    with assms obtain q where "first_user i db = Inr (Some q)" using u by blast
    with assms Users show ?thesis
      by (cases req) (simp_all add: respond_def found_simps)
  next
    case Posts
    with assms obtain q where "first_post i db = Inr (Some q)" using p by blast
    with assms Posts show ?thesis
      by (cases req) (simp_all add: respond_def found_simps)
  qed
qed

section \<open>Delete\<close>

text \<open>
  C5, as stated, fails: no post has the id \<open>2^63\<close>, and deleting it is answered with
  \<open>OverflowError\<close>, not with the 404.
\<close>

theorem delete_post_overflow_counterexample:
  "\<not> has_row (Posts, ex_big) ex_db
   \<and> delete_post ex_big ex_db = (Inl OverflowError, ex_db)
   \<and> \<not> not_found (fst (delete_post ex_big ex_db))"
proof -
  have "\<not> in_int64 ex_big" by (simp add: in_int64_def ex_big_def)
  then have "delete_post ex_big ex_db = (Inl OverflowError, ex_db)"
    by (rule posts_overflow)
  then show ?thesis by (simp add: ex_db_def ex_post_def ex_big_def)
qed

text \<open>
  C5, amended: deleting an existing post answers with the row as it was (its id, title,
  text, owner and like count), removes the rows of that id from the posts table and
  leaves the users table alone, and get-by-id on the state it leaves answers 404.
  Deleting an id that no post has and that lies within 64 bits answers 404 and leaves
  the state. Deleting an id outside 64 bits raises \<open>OverflowError\<close> and leaves the state.
\<close>

theorem delete_post_removes:
  "(first_post pid db = Inr (Some p) \<longrightarrow>
      fst (delete_post pid db) =
        Inr \<lparr>title = posts_title p, post_text = posts_post_text p, user_id = posts_user_id p,
              id_Post = pid, likes = posts_likes p\<rparr>
      \<and> posts (snd (delete_post pid db)) = filter (\<lambda>x. posts_id x \<noteq> pid) (posts db)
      \<and> users (snd (delete_post pid db)) = users db
      \<and> get_post pid (snd (delete_post pid db)) =
          (Inl (HTTPException 404 ''Post not found''), snd (delete_post pid db)))
   \<and> (in_int64 pid \<and> \<not> has_row (Posts, pid) db \<longrightarrow>
      delete_post pid db = (Inl (HTTPException 404 ''Post not found''), db))
   \<and> (\<not> in_int64 pid \<longrightarrow> delete_post pid db = (Inl OverflowError, db))"
proof (intro conjI impI)
  assume p: "first_post pid db = Inr (Some p)"
  note k = first_post_key[OF p]
  from p have r: "in_int64 pid" by (simp add: first_post_Some)
  show "fst (delete_post pid db) =
        Inr \<lparr>title = posts_title p, post_text = posts_post_text p, user_id = posts_user_id p,
              id_Post = pid, likes = posts_likes p\<rparr>"
    using p k by (simp add: delete_post_found Post_of_def)
  show "posts (snd (delete_post pid db)) = filter (\<lambda>x. posts_id x \<noteq> pid) (posts db)"
    using p k by (simp add: delete_post_found commit_delete_post_def)
  show "users (snd (delete_post pid db)) = users db"
    using p by (simp add: delete_post_found commit_delete_post_def)
  show "get_post pid (snd (delete_post pid db)) =
          (Inl (HTTPException 404 ''Post not found''), snd (delete_post pid db))"
    using p k r select_post_deleted[of p db]
    by (simp add: delete_post_found get_post_def first_post_def)
next
  assume "in_int64 pid \<and> \<not> has_row (Posts, pid) db"
  then have "first_post pid db = Inr None" by (simp add: first_post_None)
  then show "delete_post pid db = (Inl (HTTPException 404 ''Post not found''), db)"
    by (rule delete_post_absent)
next
  assume "\<not> in_int64 pid"
  then show "delete_post pid db = (Inl OverflowError, db)" by (rule posts_overflow)
qed

theorem delete_post_removes_witness:
  "first_post 1 ex_db = Inr (Some ex_post)
   \<and> fst (delete_post 1 ex_db) =
       Inr \<lparr>title = ''hello'', post_text = ''first'', user_id = 1, id_Post = 1, likes = 0\<rparr>
   \<and> posts (snd (delete_post 1 ex_db)) = []
   \<and> users (snd (delete_post 1 ex_db)) = [ex_user]
   \<and> fst (get_post 1 (snd (delete_post 1 ex_db))) = Inl (HTTPException 404 ''Post not found'')
   \<and> in_int64 2 \<and> \<not> has_row (Posts, 2) ex_db
   \<and> delete_post 2 ex_db = (Inl (HTTPException 404 ''Post not found''), ex_db)
   \<and> \<not> in_int64 ex_big
   \<and> delete_post ex_big ex_db = (Inl OverflowError, ex_db)"
proof -
  have a: "in_int64 2 \<and> \<not> has_row (Posts, 2) ex_db" and b: "\<not> in_int64 ex_big"
    by (simp_all add: in_int64_def ex_db_def ex_post_def ex_big_def)
  from delete_post_removes[of 1 ex_db ex_post] delete_post_removes[of 2 ex_db ex_post]
    delete_post_removes[of ex_big ex_db ex_post] first_post_ex_db a b
  show ?thesis by (simp add: ex_db_def ex_post_def)
qed

section \<open>Not found\<close>

text \<open>
  C6, as stated, fails: no post has the id \<open>2^63\<close>, and get-by-id with it is answered
  with \<open>OverflowError\<close>, a server error, not with the 404.
\<close>

theorem not_found_overflow_counterexample:
  "lookup_by_id (GET_post ex_big) = Some (Posts, ex_big)
   \<and> \<not> has_row (Posts, ex_big) ex_db
   \<and> fst (app (GET_post ex_big) ex_db) = Inl OverflowError
   \<and> \<not> not_found (fst (app (GET_post ex_big) ex_db))"
proof -
  have "\<not> in_int64 ex_big" by (simp add: in_int64_def ex_big_def)
  then have "get_post ex_big ex_db = (Inl OverflowError, ex_db)"
    by (rule posts_overflow)
  then show ?thesis by (simp add: respond_def ex_db_def ex_post_def ex_big_def)
qed

text \<open>
  C6, amended: a request that looks a row up by an id within 64 bits is answered with
  the 404 exactly when no row of its table has the id, and it then leaves the stored
  state as it was; when the row exists, every such request but the full update of a
  post succeeds. A request with an id outside 64 bits raises \<open>OverflowError\<close>. A request
  answered with any error leaves the stored state as it was.
\<close>

theorem not_found_iff_no_row:
  assumes "lookup_by_id req = Some (t, i)"
  shows "(in_int64 i \<longrightarrow> (not_found (fst (app req db)) \<longleftrightarrow> \<not> has_row (t, i) db))
       \<and> (in_int64 i \<and> \<not> has_row (t, i) db \<longrightarrow> snd (app req db) = db)
       \<and> (in_int64 i \<and> has_row (t, i) db \<and> (\<forall>pid post. req \<noteq> PUT_post pid post) \<longrightarrow>
            \<not> isl (fst (app req db)))
       \<and> (\<not> in_int64 i \<longrightarrow> app req db = (Inl OverflowError, db))
       \<and> (isl (fst (app req db)) \<longrightarrow> snd (app req db) = db)"
proof (cases "in_int64 i")
  case False
  with lookup_overflow[OF assms, of db] show ?thesis by simp
next
  case True
  show ?thesis
  proof (cases "has_row (t, i) db")
    case False
    with lookup_absent[OF assms True, of db] True show ?thesis by simp
  next
    case h: True
    have "\<not> not_found (fst (app req db)) \<and> (isl (fst (app req db)) \<longrightarrow> snd (app req db) = db)"
      using lookup_found[OF assms True h] by (cases req) (auto dest: not_found_isl)
    moreover have "\<not> isl (fst (app req db))" if "\<forall>pid post. req \<noteq> PUT_post pid post"
      using lookup_found[OF assms True h] that by (cases req) simp_all
    ultimately show ?thesis using True h by simp
  qed
qed

theorem not_found_iff_no_row_witness:
  "lookup_by_id (PATCH_post_text 2 ''new'') = Some (Posts, 2)
   \<and> in_int64 2 \<and> \<not> has_row (Posts, 2) ex_db
   \<and> not_found (fst (app (PATCH_post_text 2 ''new'') ex_db))
   \<and> snd (app (PATCH_post_text 2 ''new'') ex_db) = ex_db
   \<and> lookup_by_id (PATCH_user_name 1 ''eve'') = Some (Users, 1)
   \<and> in_int64 1 \<and> has_row (Users, 1) ex_db
   \<and> \<not> not_found (fst (app (PATCH_user_name 1 ''eve'') ex_db))
   \<and> \<not> isl (fst (app (PATCH_user_name 1 ''eve'') ex_db))
   \<and> lookup_by_id (GET_user ex_big) = Some (Users, ex_big)
   \<and> \<not> in_int64 ex_big
   \<and> app (GET_user ex_big) ex_db = (Inl OverflowError, ex_db)"
proof -
  have a: "in_int64 2 \<and> \<not> has_row (Posts, 2) ex_db" and b: "in_int64 1 \<and> has_row (Users, 1) ex_db"
    and c: "\<not> in_int64 ex_big"
    by (simp_all add: in_int64_def ex_db_def ex_post_def ex_user_def ex_big_def)
  from not_found_iff_no_row[of "PATCH_post_text 2 ''new''" Posts 2 ex_db]
    not_found_iff_no_row[of "PATCH_user_name 1 ''eve''" Users 1 ex_db]
    not_found_iff_no_row[of "GET_user ex_big" Users ex_big ex_db] a b c
  show ?thesis by simp
qed

section \<open>The state a request leaves\<close>

lemma snd_respond: "snd (respond f r) = snd r"
  by (cases "fst r") (simp_all add: respond_def)

lemma create_user_state:
  "snd (create_user user db) = snd (insert_user (name user) (is_admin user) (image_url user) db)"
  by (cases "insert_user (name user) (is_admin user) (image_url user) db")
     (simp add: create_user_inserts)

lemma create_post_state:
  "snd (create_post post db) =
     (case insert_post (title post) (post_text post) (user_id post) db of
        Inl e \<Rightarrow> db
      | Inr (i, db') \<Rightarrow> db')"
proof (cases "insert_post (title post) (post_text post) (user_id post) db")
  case (Inl e)
  then show ?thesis by (simp add: create_post_def)
next
  case (Inr x)
  then show ?thesis by (cases x) (simp add: create_post_inserts)
qed

lemma get_users_state: "snd (get_users n db) = db"
  by (simp add: get_users_def Let_def split: option.split sum.split)

lemma get_posts_state: "snd (get_posts t db) = db"
  by (simp add: get_posts_def Let_def split: option.split sum.split)

lemma get_user_state: "snd (get_user uid db) = db"
  by (simp add: get_user_def split: option.split sum.split)

lemma get_post_state: "snd (get_post pid db) = db"
  by (simp add: get_post_def split: option.split sum.split)

lemma update_user_state:
  "snd (update_user uid user db) =
     (case first_user uid db of
        Inr (Some u) \<Rightarrow> commit_user (u\<lparr>users_username := name user, users_is_admin := is_admin user,
                                         users_image_url := image_url user\<rparr>) db
      | _ \<Rightarrow> db)"
  by (auto simp: update_user_absent update_user_found users_overflow first_user_overflow
      split: option.split sum.split)

lemma patch_user_name_state:
  "snd (patch_user_name uid n db) =
     (case first_user uid db of
        Inr (Some u) \<Rightarrow> commit_user (u\<lparr>users_username := n\<rparr>) db
      | _ \<Rightarrow> db)"
  by (auto simp: patch_user_name_absent patch_user_name_found users_overflow first_user_overflow
      split: option.split sum.split)

lemma patch_post_text_state:
  "snd (patch_post_text pid t db) =
     (case first_post pid db of
        Inr (Some p) \<Rightarrow> commit_post (p\<lparr>posts_post_text := t\<rparr>) db
      | _ \<Rightarrow> db)"
  by (auto simp: patch_post_text_absent patch_post_text_found posts_overflow first_post_overflow
      split: option.split sum.split)

lemma increment_state:
  "snd (increment_post_likes pid db) =
     (case first_post pid db of
        Inr (Some p) \<Rightarrow> commit_post (p\<lparr>posts_likes := posts_likes p + 1\<rparr>) db
      | _ \<Rightarrow> db)"
  by (auto simp: increment_absent increment_found posts_overflow first_post_overflow
      split: option.split sum.split)

lemma decrement_state:
  "snd (decrement_post_likes pid db) =
     (case first_post pid db of
        Inr (Some p) \<Rightarrow> commit_post (p\<lparr>posts_likes := max 0 (posts_likes p - 1)\<rparr>) db
      | _ \<Rightarrow> db)"
  by (auto simp: decrement_absent decrement_found posts_overflow first_post_overflow
      split: option.split sum.split)

lemma delete_post_state:
  "snd (delete_post pid db) =
     (case first_post pid db of Inr (Some p) \<Rightarrow> commit_delete_post p db | _ \<Rightarrow> db)"
  by (auto simp: delete_post_absent delete_post_found posts_overflow first_post_overflow
      split: option.split sum.split)

lemmas state_simps =
  snd_respond create_user_state create_post_state get_users_state get_posts_state get_user_state
  get_post_state update_user_state patch_user_name_state update_post_state patch_post_text_state
  increment_state decrement_state delete_post_state

section \<open>Primary keys are unique\<close>

lemma replace_keys: "map k (map (\<lambda>x. if k x = k r then r else x) xs) = map k xs"
  by (induction xs) auto

lemma distinct_snoc_next_id: "distinct (map k xs) \<Longrightarrow> distinct (map k xs @ [next_id (map k xs)])"
  using next_id_greater[of "next_id (map k xs)" "map k xs"] by auto

lemma commit_post_ids: "map posts_id (posts (commit_post r db)) = map posts_id (posts db)"
  using replace_keys[of posts_id r "posts db"] by (simp add: commit_post_def del: map_map)

lemma commit_user_ids: "map users_id (users (commit_user r db)) = map users_id (users db)"
  using replace_keys[of users_id r "users db"] by (simp add: commit_user_def del: map_map)

lemma commit_post_users: "users (commit_post r db) = users db"
  by (simp add: commit_post_def)

lemma commit_user_posts: "posts (commit_user r db) = posts db"
  by (simp add: commit_user_def)

lemma commit_delete_post_tables:
  "users (commit_delete_post r db) = users db"
  "posts (commit_delete_post r db) = filter (\<lambda>x. posts_id x \<noteq> posts_id r) (posts db)"
  by (simp_all add: commit_delete_post_def)

lemma insert_user_tables:
  "posts (snd (insert_user n a u db)) = posts db"
  "users (snd (insert_user n a u db)) =
     users db @ [\<lparr>users_id = next_id (map users_id (users db)), users_username = n,
                  users_is_admin = a, users_image_url = u\<rparr>]"
  by (simp_all add: insert_user_def Let_def)

lemma insert_post_tables:
  assumes "insert_post t x u db = Inr (i, db')"
  shows "users db' = users db"
    and "posts db' =
     posts db @ [\<lparr>posts_id = next_id (map posts_id (posts db)), posts_title = t,
                  posts_post_text = x, posts_likes = 0, posts_user_id = u\<rparr>]"
  using assms by (auto simp: insert_post_def Let_def split: if_splits)

lemmas table_simps =
  commit_post_ids commit_user_ids commit_post_users commit_user_posts commit_delete_post_tables
  insert_user_tables

lemma insert_post_unique_ids:
  assumes "insert_post t x u db = Inr (i, db')" and "unique_ids db"
  shows "unique_ids db'"
  using assms(2) insert_post_tables[OF assms(1)] distinct_snoc_next_id[of posts_id "posts db"]
  by (simp add: unique_ids_def)

lemma unique_ids_app:
  assumes "unique_ids db"
  shows "unique_ids (snd (app req db))"
proof (cases req)
  case (POST_posts post)
  with assms show ?thesis
    by (auto simp: state_simps dest: insert_post_unique_ids split: sum.splits)
qed (insert assms, auto simp: unique_ids_def state_simps table_simps distinct_map_filter
       dest: distinct_snoc_next_id split: option.splits sum.splits)

lemma reachable_unique_ids: "reachable db \<Longrightarrow> unique_ids db"
proof (induction rule: reachable.induct)
  case start
  show ?case by (simp add: unique_ids_def empty_db_def)
next
  case (request db req)
  then show ?case by (simp add: unique_ids_app)
qed

section \<open>The example state\<close>

lemma ex_db_requests:
  "ex_db = snd (app (POST_posts ex_post_create) (snd (app (POST_users ex_user_create) empty_db)))"
  by (simp add: state_simps insert_user_def insert_post_def next_id_def in_int64_def empty_db_def
      ex_db_def ex_user_def ex_post_def ex_user_create_def ex_post_create_def)

lemma reachable_ex_db: "reachable ex_db"
  unfolding ex_db_requests by (intro reachable.intros)

lemma first_user_ex_db: "first_user 1 ex_db = Inr (Some ex_user)"
  by (simp add: first_user_def select_user_def in_int64_def ex_db_def ex_user_def)

lemma unique_ids_ex_db:
  "distinct (map users_id (users ex_db))" "distinct (map posts_id (posts ex_db))"
  by (simp_all add: ex_db_def)

section \<open>Patches\<close>

lemma find_unique:
  assumes "distinct (map k xs)" and "find (\<lambda>x. k x = i) xs = Some p"
    and "x \<in> set xs" and "k x = i"
  shows "x = p"
proof -
  from find_key[OF assms(2)] have "k p = i" and "p \<in> set xs" by simp_all
  moreover from assms(1) have "inj_on k (set xs)" by (simp add: distinct_map)
  ultimately show ?thesis using assms(3,4) by (auto dest: inj_onD)
qed

lemma replace_found:
  assumes "distinct (map k xs)" and "find (\<lambda>x. k x = i) xs = Some p"
  shows "map (\<lambda>x. if k x = i then f p else x) xs = map (\<lambda>x. if k x = i then f x else x) xs"
  using find_unique[OF assms] by (intro map_cong) auto

text \<open>
  C8: in a store whose ids are unique, patching the name of an existing user rewrites
  the users table row by row, the row of that id with the new name and every other
  field as before, every other row as it was, and leaves the posts table alone; the
  answer is the user as it was, under the new name. Patching the text of an existing
  post does the same to the posts table, with the text.
\<close>

theorem patch_changes_only_target:
  "(first_user uid db = Inr (Some u) \<and> distinct (map users_id (users db)) \<longrightarrow>
      fst (patch_user_name uid n db) = Inr ((User_of u)\<lparr>name := n\<rparr>)
      \<and> users (snd (patch_user_name uid n db)) =
          map (\<lambda>x. if users_id x = uid then x\<lparr>users_username := n\<rparr> else x) (users db)
      \<and> posts (snd (patch_user_name uid n db)) = posts db)
   \<and> (first_post pid db = Inr (Some p) \<and> distinct (map posts_id (posts db)) \<longrightarrow>
      fst (patch_post_text pid text db) = Inr ((Post_of p)\<lparr>post_text := text\<rparr>)
      \<and> posts (snd (patch_post_text pid text db)) =
          map (\<lambda>x. if posts_id x = pid then x\<lparr>posts_post_text := text\<rparr> else x) (posts db)
      \<and> users (snd (patch_post_text pid text db)) = users db)"
proof (intro conjI impI; elim conjE)
  assume u: "first_user uid db = Inr (Some u)" and d: "distinct (map users_id (users db))"
  from u have s: "find (\<lambda>x. users_id x = uid) (users db) = Some u"
    by (simp add: first_user_Some select_user_def)
  show "fst (patch_user_name uid n db) = Inr ((User_of u)\<lparr>name := n\<rparr>)"
    using u by (simp add: patch_user_name_found User_of_def)
  show "users (snd (patch_user_name uid n db)) =
          map (\<lambda>x. if users_id x = uid then x\<lparr>users_username := n\<rparr> else x) (users db)"
    using u first_user_key[OF u]
      replace_found[OF d s, of "\<lambda>x. x\<lparr>users_username := n\<rparr>"]
    by (simp add: patch_user_name_found commit_user_def)
  show "posts (snd (patch_user_name uid n db)) = posts db"
    using u by (simp add: patch_user_name_found commit_user_posts)
next
  assume p: "first_post pid db = Inr (Some p)" and d: "distinct (map posts_id (posts db))"
  from p have s: "find (\<lambda>x. posts_id x = pid) (posts db) = Some p"
    by (simp add: first_post_Some select_post_def)
  show "fst (patch_post_text pid text db) = Inr ((Post_of p)\<lparr>post_text := text\<rparr>)"
    using p by (simp add: patch_post_text_found Post_of_def)
  show "posts (snd (patch_post_text pid text db)) =
          map (\<lambda>x. if posts_id x = pid then x\<lparr>posts_post_text := text\<rparr> else x) (posts db)"
    using p first_post_key[OF p]
      replace_found[OF d s, of "\<lambda>x. x\<lparr>posts_post_text := text\<rparr>"]
    by (simp add: patch_post_text_found commit_post_def)
  show "users (snd (patch_post_text pid text db)) = users db"
    using p by (simp add: patch_post_text_found commit_post_users)
qed

theorem patch_changes_only_target_witness:
  "first_user 1 ex_db = Inr (Some ex_user) \<and> distinct (map users_id (users ex_db))
   \<and> fst (patch_user_name 1 ''eve'' ex_db) =
       Inr \<lparr>name = ''eve'', is_admin = True, image_url = Some ''a.png'', id_User = 1\<rparr>
   \<and> users (snd (patch_user_name 1 ''eve'' ex_db)) = [ex_user\<lparr>users_username := ''eve''\<rparr>]
   \<and> posts (snd (patch_user_name 1 ''eve'' ex_db)) = [ex_post]
   \<and> first_post 1 ex_db = Inr (Some ex_post) \<and> distinct (map posts_id (posts ex_db))
   \<and> fst (patch_post_text 1 ''new'' ex_db) =
       Inr \<lparr>title = ''hello'', post_text = ''new'', user_id = 1, id_Post = 1, likes = 0\<rparr>
   \<and> posts (snd (patch_post_text 1 ''new'' ex_db)) = [ex_post\<lparr>posts_post_text := ''new''\<rparr>]
   \<and> users (snd (patch_post_text 1 ''new'' ex_db)) = [ex_user]"
  using patch_changes_only_target[of 1 ex_db ex_user "''eve''" 1 ex_post "''new''"]
    first_user_ex_db first_post_ex_db unique_ids_ex_db
  by (simp add: ex_db_def ex_user_def ex_post_def User_of_def Post_of_def)

section \<open>Like counts\<close>

lemma commit_post_rows: "set (posts (commit_post r db)) \<subseteq> insert r (set (posts db))"
  by (auto simp: commit_post_def)

lemma likes_nonneg_commit:
  "likes_nonneg db \<Longrightarrow> 0 \<le> posts_likes r \<Longrightarrow> likes_nonneg (commit_post r db)"
  using commit_post_rows[of r db] by (auto simp: likes_nonneg_def)

lemma likes_nonneg_row:
  "likes_nonneg db \<Longrightarrow> first_post pid db = Inr (Some p) \<Longrightarrow> 0 \<le> posts_likes p"
  unfolding first_post_Some select_post_def by (auto dest: find_key simp: likes_nonneg_def)

lemma likes_nonneg_insert_post:
  "insert_post t x u db = Inr (i, db') \<Longrightarrow> likes_nonneg db \<Longrightarrow> likes_nonneg db'"
  by (drule insert_post_tables(2)) (simp add: likes_nonneg_def)

lemma likes_nonneg_app:
  assumes "likes_nonneg db"
  shows "likes_nonneg (snd (app req db))"
proof (cases req)
  case (POST_posts post)
  with assms show ?thesis
    by (auto simp: state_simps dest: likes_nonneg_insert_post split: sum.splits)
next
  case (PATCH_post_text pid t)
  with assms show ?thesis
    by (auto simp: state_simps intro!: likes_nonneg_commit dest: likes_nonneg_row
        split: option.splits sum.splits)
next
  case (PATCH_post_likes_increment pid)
  with assms show ?thesis
    by (auto simp: state_simps intro!: likes_nonneg_commit dest: likes_nonneg_row
        split: option.splits sum.splits)
next
  case (PATCH_post_likes_decrement pid)
  with assms show ?thesis
    by (auto simp: state_simps intro!: likes_nonneg_commit split: option.splits sum.splits)
qed (insert assms, auto simp: likes_nonneg_def state_simps table_simps
       split: option.splits sum.splits)

lemma reachable_likes_nonneg: "reachable db \<Longrightarrow> likes_nonneg db"
proof (induction rule: reachable.induct)
  case start
  show ?case by (simp add: likes_nonneg_def empty_db_def)
next
  case (request db req)
  then show ?case by (simp add: likes_nonneg_app)
qed

text \<open>What creating a post answers and stores.\<close>

lemma create_post_likes:
  "(\<forall>r. fst (create_post post db) = Inr r \<longrightarrow> likes r = 0)
   \<and> (in_int64 (user_id post) \<longrightarrow> (\<exists>r. fst (create_post post db) = Inr r \<and> likes r = 0))
   \<and> (\<forall>x\<in>set (posts (snd (create_post post db))). x \<in> set (posts db) \<or> posts_likes x = 0)
   \<and> (\<not> in_int64 (user_id post) \<longrightarrow> create_post post db = (Inl OverflowError, db))"
proof (cases "in_int64 (user_id post)")
  case False
  then show ?thesis by (simp add: create_post_overflow)
next
  case True
  then obtain i db' where
    ins: "insert_post (title post) (post_text post) (user_id post) db = Inr (i, db')"
    using insert_post_in_range by blast
  from create_post_inserts[OF ins] insert_post_tables(2)[OF ins] True
  show ?thesis by auto
qed

text \<open>
  C1: in every reachable state no stored post has a negative like count, and whatever
  request comes next, none has in the state it leaves. Creating a post with an owner id
  within 64 bits succeeds; whenever it succeeds the answer has like count 0, and the
  row it adds, the only change to the posts table, has like count 0; with an owner id
  outside 64 bits it raises \<open>OverflowError\<close> and stores nothing. The handler of line
  134, to which no request is dispatched, leaves the stored posts as they are.
\<close>

theorem likes_never_negative:
  assumes "reachable db"
  shows "(\<forall>p\<in>set (posts db). 0 \<le> posts_likes p)
       \<and> (\<forall>p\<in>set (posts (snd (app req db))). 0 \<le> posts_likes p)
       \<and> (\<forall>r. fst (create_post post db) = Inr r \<longrightarrow> likes r = 0)
       \<and> (in_int64 (user_id post) \<longrightarrow> (\<exists>r. fst (create_post post db) = Inr r \<and> likes r = 0))
       \<and> (\<forall>x\<in>set (posts (snd (create_post post db))). x \<in> set (posts db) \<or> posts_likes x = 0)
       \<and> (\<not> in_int64 (user_id post) \<longrightarrow> create_post post db = (Inl OverflowError, db))
       \<and> posts (snd (create_post_134 post db)) = posts db"
proof -
  from assms have "likes_nonneg db" by (rule reachable_likes_nonneg)
  moreover from this have "likes_nonneg (snd (app req db))" by (rule likes_nonneg_app)
  ultimately show ?thesis
    using create_post_likes[of post db] by (simp add: likes_nonneg_def create_post_134_fails)
qed

theorem likes_never_negative_witness:
  "reachable ex_db
   \<and> posts (snd (app (PATCH_post_likes_decrement 1) ex_db)) = [ex_post]
   \<and> 0 \<le> posts_likes ex_post
   \<and> in_int64 (user_id ex_post_create)
   \<and> create_post ex_post_create ex_db =
       (Inr \<lparr>title = ''hello'', post_text = ''first'', user_id = 1, id_Post = 2, likes = 0\<rparr>,
        \<lparr>users = [ex_user],
          posts = [ex_post, \<lparr>posts_id = 2, posts_title = ''hello'', posts_post_text = ''first'',
                             posts_likes = 0, posts_user_id = 1\<rparr>]\<rparr>)"
proof -
  have "posts (snd (app (PATCH_post_likes_decrement 1) ex_db)) = [ex_post]"
    by (simp add: state_simps first_post_ex_db commit_post_def) (simp add: ex_db_def ex_post_def)
  moreover have "create_post ex_post_create ex_db =
       (Inr \<lparr>title = ''hello'', post_text = ''first'', user_id = 1, id_Post = 2, likes = 0\<rparr>,
        \<lparr>users = [ex_user],
          posts = [ex_post, \<lparr>posts_id = 2, posts_title = ''hello'', posts_post_text = ''first'',
                             posts_likes = 0, posts_user_id = 1\<rparr>]\<rparr>)"
    by (simp add: create_post_def insert_post_def refresh_post_def select_post_def Post_of_def
        next_id_def in_int64_def ex_db_def ex_post_def ex_post_create_def)
  moreover have "in_int64 (user_id ex_post_create)"
    by (simp add: in_int64_def ex_post_create_def)
  ultimately show ?thesis
    using likes_never_negative[OF reachable_ex_db, of "PATCH_post_likes_decrement 1" ex_post_create]
      reachable_ex_db
    by simp
qed

section \<open>What changes a like count\<close>

lemma find_replace_any:
  "find (\<lambda>x. k x = i) (map (\<lambda>x. if k x = k r then r else x) xs) =
     (if i = k r then map_option (\<lambda>_. r) (find (\<lambda>x. k x = i) xs) else find (\<lambda>x. k x = i) xs)"
  by (induction xs) auto

lemma find_remove_any:
  "find (\<lambda>x. k x = i) (filter (\<lambda>x. k x \<noteq> j) xs) =
     (if i = j then None else find (\<lambda>x. k x = i) xs)"
  by (induction xs) auto

lemma select_post_commit_any:
  "select_post q (commit_post r db) =
     (if q = posts_id r then map_option (\<lambda>_. r) (select_post q db) else select_post q db)"
  by (simp add: select_post_def commit_post_def find_replace_any)

lemma select_post_commit_user: "select_post q (commit_user r db) = select_post q db"
  by (simp add: select_post_def commit_user_def)

lemma select_post_insert_user: "select_post q (snd (insert_user n a u db)) = select_post q db"
  by (simp add: select_post_def insert_user_def Let_def)

lemma select_post_insert_post:
  "insert_post t x u db = Inr (i, db') \<Longrightarrow> select_post q db = Some p \<Longrightarrow>
   select_post q db' = Some p"
  by (drule insert_post_tables(2)) (simp add: select_post_def find_snoc)

lemma select_post_delete_any:
  "select_post q (commit_delete_post r db) = (if q = posts_id r then None else select_post q db)"
  by (simp add: select_post_def commit_delete_post_def find_remove_any)

lemma select_post_patch_post_text:
  "select_post q (snd (patch_post_text pid t db)) =
     map_option (\<lambda>p. if q = pid \<and> in_int64 pid then p\<lparr>posts_post_text := t\<rparr> else p)
       (select_post q db)"
proof (cases "first_post pid db")
  case (Inl e)
  then have "\<not> in_int64 pid" by (simp add: first_post_overflow)
  with Inl show ?thesis
    by (cases "select_post q db") (simp_all add: patch_post_text_state)
next
  case (Inr found)
  show ?thesis
  proof (cases found)
    case None
    with Inr show ?thesis
      by (cases "select_post q db") (auto simp: patch_post_text_state first_post_def split: if_splits)
  next
    case (Some x)
    with Inr first_post_key[of pid db x] show ?thesis
      by (cases "select_post q db")
         (auto simp: patch_post_text_state select_post_commit_any first_post_def split: if_splits)
  qed
qed

lemma likes_kept:
  assumes "\<not> changes_likes req" and "select_post q db = Some p"
    and "select_post q (snd (app req db)) = Some p'"
  shows "posts_likes p' = posts_likes p"
  using assms
  by (cases req)
     (auto simp: snd_respond create_user_state create_post_state get_users_state get_posts_state
        get_user_state get_post_state update_user_state patch_user_name_state update_post_state
        delete_post_state select_post_patch_post_text select_post_commit_user
        select_post_insert_user select_post_delete_any
        dest: select_post_insert_post split: option.splits sum.splits if_splits)

text \<open>
  C10: the full update of a post leaves the id and the like count of every stored post
  as they were; a \<open>PostCreate\<close> body has no attribute \<open>likes\<close>; a post that is created
  is answered and stored with like count 0, the rows stored before as they were; and no
  request but the increment and the decrement of likes changes the like count of a post
  that is stored before and after it.
\<close>

theorem likes_change_only_by_increment_decrement:
  "map (\<lambda>r. (posts_id r, posts_likes r)) (posts (snd (update_post pid post db))) =
     map (\<lambda>r. (posts_id r, posts_likes r)) (posts db)
   \<and> getattr_PostCreate post ''likes'' = Inl (AttributeError ''likes'')
   \<and> (\<forall>r. fst (create_post post db) = Inr r \<longrightarrow> likes r = 0)
   \<and> (\<forall>x\<in>set (posts (snd (create_post post db))). x \<in> set (posts db) \<or> posts_likes x = 0)
   \<and> (\<not> changes_likes req \<and> select_post q db = Some p
        \<and> select_post q (snd (app req db)) = Some p' \<longrightarrow> posts_likes p' = posts_likes p)"
proof (intro conjI impI)
  show "map (\<lambda>r. (posts_id r, posts_likes r)) (posts (snd (update_post pid post db))) =
     map (\<lambda>r. (posts_id r, posts_likes r)) (posts db)"
    by (simp add: update_post_state)
  show "getattr_PostCreate post ''likes'' = Inl (AttributeError ''likes'')"
    by (simp add: getattr_PostCreate_def)
  show "\<forall>r. fst (create_post post db) = Inr r \<longrightarrow> likes r = 0"
    using create_post_likes[of post db] by blast
  show "\<forall>x\<in>set (posts (snd (create_post post db))). x \<in> set (posts db) \<or> posts_likes x = 0"
    using create_post_likes[of post db] by blast
next
  assume "\<not> changes_likes req \<and> select_post q db = Some p
        \<and> select_post q (snd (app req db)) = Some p'"
  then show "posts_likes p' = posts_likes p" by (auto intro: likes_kept)
qed

theorem likes_change_only_by_increment_decrement_witness:
  "\<not> changes_likes (PATCH_post_text 1 ''new'')
   \<and> select_post 1 ex_db = Some ex_post
   \<and> select_post 1 (snd (app (PATCH_post_text 1 ''new'') ex_db)) =
       Some (ex_post\<lparr>posts_post_text := ''new''\<rparr>)
   \<and> posts_likes (ex_post\<lparr>posts_post_text := ''new''\<rparr>) = posts_likes ex_post
   \<and> posts (snd (update_post 1 ex_post_update ex_db)) = posts ex_db
   \<and> fst (create_post ex_post_update ex_db) =
       Inr \<lparr>title = ''bye'', post_text = ''second'', user_id = 2, id_Post = 2, likes = 0\<rparr>"
proof -
  have s: "select_post 1 ex_db = Some ex_post"
    by (simp add: select_post_def ex_db_def ex_post_def)
  have a: "select_post 1 (snd (app (PATCH_post_text 1 ''new'') ex_db)) =
       Some (ex_post\<lparr>posts_post_text := ''new''\<rparr>)"
    using s by (simp add: snd_respond select_post_patch_post_text in_int64_def)
  have c: "fst (create_post ex_post_update ex_db) =
       Inr \<lparr>title = ''bye'', post_text = ''second'', user_id = 2, id_Post = 2, likes = 0\<rparr>"
    by (simp add: create_post_def insert_post_def refresh_post_def select_post_def Post_of_def
        next_id_def in_int64_def ex_db_def ex_post_def ex_post_update_def)
  from likes_change_only_by_increment_decrement[of 1 ex_post_update ex_db
      "PATCH_post_text 1 ''new''" 1 ex_post "ex_post\<lparr>posts_post_text := ''new''\<rparr>"]
    a s c
  show ?thesis by (simp add: update_post_state)
qed

section \<open>The full update of a post\<close>

text \<open>
  C2: on the example state, where post 1 exists, the full update of post 1 raises
  \<open>AttributeError\<close> for \<open>text\<close> and leaves the post as it was; on the absent id 2 it
  raises the 404.
\<close>

theorem update_post_raises:
  "first_post 1 ex_db = Inr (Some ex_post)
   \<and> update_post 1 ex_post_update ex_db = (Inl (AttributeError ''text''), ex_db)
   \<and> get_post 1 (snd (update_post 1 ex_post_update ex_db)) = (Inr (Post_of ex_post), ex_db)
   \<and> update_post 2 ex_post_update ex_db = (Inl (HTTPException 404 ''Post not found''), ex_db)"
proof -
  have "first_post 2 ex_db = Inr None"
    by (simp add: first_post_def select_post_def in_int64_def ex_db_def ex_post_def)
  then show ?thesis
    using first_post_ex_db
    by (simp add: update_post_found update_post_absent get_post_found)
qed

section \<open>Filters\<close>

















text \<open>
  The two readings of NUL: the title filter \<open>b\<close> does not list the title \<open>a\<close>, NUL, \<open>b\<close>, which
  is read as \<open>a\<close>; and the filter that is one NUL character is read as the pattern \<open>%\<close>,
  which every title matches.
\<close>

lemma like_NUL:
  "\<not> like ''%b%'' [CHR ''a'', CHR 0x00, CHR ''b'']"
  "like ''%b%'' ''ab''"
  "like [CHR ''%'', CHR 0x00, CHR ''%''] ''ab''"
  by code_simp+




section \<open>The ids of the users table\<close>

text \<open>
  No request deletes a user, so the users of a reachable state have the ids 1, 2, ... in
  storage order, and the next user gets an id within 64 bits as long as the table has
  fewer than \<open>2^63 - 1\<close> rows.
\<close>

lemma fold_max_mem: "fold max xs (a::int) \<in> insert a (set xs)"
proof (induction xs arbitrary: a)
  case Nil
  show ?case by simp
next
  case (Cons y ys)
  from Cons.IH[of "max y a"] show ?case by (auto simp: max_def split: if_splits)
qed

lemma next_id_upto: "next_id (map int [1..<Suc n]) = int n + 1"
proof (cases n)
  case 0
  then show ?thesis by (simp add: next_id_def)
next
  case (Suc m)
  let ?ids = "map int [1..<Suc n]"
  from Suc have ne: "?ids \<noteq> []" by simp
  then obtain i rest where ids: "?ids = i # rest" by (cases ?ids) auto
  have "fold max rest i \<in> set ?ids" using fold_max_mem[of rest i] ids by simp
  then have le: "fold max rest i \<le> int n" by auto
  have "int n \<in> set ?ids" using Suc by (simp del: upt_Suc) force
  then have "int n < next_id ?ids" by (rule next_id_greater)
  with le ids show ?thesis by (simp add: next_id_def)
qed

lemma user_ids_app:
  assumes "map users_id (users db) = map int [1..<Suc (length (users db))]"
  shows "map users_id (users (snd (app req db))) =
           map int [1..<Suc (length (users (snd (app req db))))]"
proof (cases req)
  case (POST_users user)
  with assms next_id_upto[of "length (users db)"] show ?thesis
    by (simp add: state_simps table_simps)
next
  case (PUT_user uid user)
  have "length (users (commit_user r db)) = length (users db)" for r
    using commit_user_ids[of r db] by (metis length_map)
  with PUT_user assms show ?thesis
    by (auto simp: state_simps commit_user_ids split: option.splits sum.splits)
next
  case (PATCH_user_name uid n)
  have "length (users (commit_user r db)) = length (users db)" for r
    using commit_user_ids[of r db] by (metis length_map)
  with PATCH_user_name assms show ?thesis
    by (auto simp: state_simps commit_user_ids split: option.splits sum.splits)
next
  case (POST_posts post)
  with assms show ?thesis
    by (auto simp: state_simps dest: insert_post_tables(1) split: sum.splits)
qed (insert assms, auto simp: state_simps table_simps split: option.splits sum.splits)

lemma reachable_user_ids:
  "reachable db \<Longrightarrow> map users_id (users db) = map int [1..<Suc (length (users db))]"
proof (induction rule: reachable.induct)
  case start
  show ?case by (simp add: empty_db_def)
next
  case (request db req)
  from request.IH show ?case by (rule user_ids_app)
qed

lemma reachable_next_user_id:
  assumes "reachable db" and "int (length (users db)) < 9223372036854775807"
  shows "in_int64 (next_id (map users_id (users db)))"
  using assms(2) next_id_upto[of "length (users db)"]
  by (simp add: reachable_user_ids[OF assms(1)] in_int64_def)

end
